theory Spec2Isabelle
  imports Complex_Main
begin

section \<open>Data model of \<^verbatim>\<open>app/main.py\<close>\<close>

text \<open>
  A Python \<^verbatim>\<open>str\<close> is a sequence of Unicode code points, so it is a list of
  naturals here: \<open>length\<close> counts code points, as pydantic's \<^verbatim>\<open>min_length\<close> and
  \<^verbatim>\<open>max_length\<close> do. \<open>ascii\<close> reads the ASCII part of a literal; the other code
  points of the source's literals are written as hexadecimal numbers.
\<close>

type_synonym str = "nat list"

definition ascii :: "string \<Rightarrow> str" where
  "ascii s = map of_char s"

text \<open>
  A Python \<^verbatim>\<open>float\<close> is a real number or NaN. The program does no arithmetic on
  floats: it writes decimal literals and compares with \<^verbatim>\<open><\<close>, \<^verbatim>\<open>>\<close>, \<^verbatim>\<open><=\<close> and
  \<^verbatim>\<open>>=\<close>. A float that is not NaN stands for the real it is mapped to by an order
  embedding that sends the double denoted by each decimal literal of the program to that
  decimal (there is one: the double denoted by a literal is the one nearest to it, so no
  double lies strictly between the two). Every comparison with NaN is false.
\<close>

datatype pyfloat = Float real | NaN

fun float_lt :: "pyfloat \<Rightarrow> pyfloat \<Rightarrow> bool" where
  "float_lt (Float a) (Float b) = (a < b)"
| "float_lt _ _ = False"

fun float_gt :: "pyfloat \<Rightarrow> pyfloat \<Rightarrow> bool" where
  "float_gt (Float a) (Float b) = (a > b)"
| "float_gt _ _ = False"

fun float_le :: "pyfloat \<Rightarrow> pyfloat \<Rightarrow> bool" where
  "float_le (Float a) (Float b) = (a \<le> b)"
| "float_le _ _ = False"

fun float_ge :: "pyfloat \<Rightarrow> pyfloat \<Rightarrow> bool" where
  "float_ge (Float a) (Float b) = (a \<ge> b)"
| "float_ge _ _ = False"

text \<open>A \<^verbatim>\<open>datetime\<close> by its fields.\<close>

record datetime =
  year :: nat
  month :: nat
  day :: nat
  hour :: nat
  minute :: nat
  second :: nat
  microsecond :: nat

text \<open>The pydantic models \<^verbatim>\<open>ChatMessage\<close> and \<^verbatim>\<open>ChatResponse\<close>.\<close>

record ChatMessage =
  user_id :: str
  message :: str
  channel :: str

text \<open>The constraints of \<^verbatim>\<open>ChatMessage\<close>: \<^verbatim>\<open>min_length=1, max_length=1000\<close>.\<close>

definition valid_ChatMessage :: "ChatMessage \<Rightarrow> bool" where
  "valid_ChatMessage m = (1 \<le> length (message m) \<and> length (message m) \<le> 1000)"

record ChatResponse =
  response :: str
  intent :: str
  confidence :: pyfloat
  requires_human :: bool
  suggested_actions :: "str list"
  session_id :: str
  timestamp :: datetime

text \<open>
  The dictionary that \<^verbatim>\<open>classify_intent\<close> returns and the other functions read has
  the two keys \<^verbatim>\<open>"type"\<close> and \<^verbatim>\<open>"confidence"\<close>.
\<close>

record Intent =
  type :: str
  confidence :: pyfloat

text \<open>The handler turns every exception into one HTTP error.\<close>

datatype error = HTTP_500

section \<open>String operations\<close>

text \<open>\<^verbatim>\<open>word in s\<close> on strings: \<open>word\<close> occurs in \<open>s\<close> as a contiguous run.\<close>

fun startswith :: "str \<Rightarrow> str \<Rightarrow> bool" where
  "startswith s [] = True"
| "startswith [] (w # ws) = False"
| "startswith (c # cs) (w # ws) = (c = w \<and> startswith cs ws)"

fun str_in :: "str \<Rightarrow> str \<Rightarrow> bool" where
  "str_in word [] = (word = [])"
| "str_in word (c # cs) = (startswith (c # cs) word \<or> str_in word cs)"

text \<open>\<^verbatim>\<open>any(word in s for word in words)\<close>.\<close>

definition any_in :: "str list \<Rightarrow> str \<Rightarrow> bool" where
  "any_in words s = list_ex (\<lambda>word. str_in word s) words"

text \<open>
  \<^verbatim>\<open>str.lower\<close> is Python's, not the repository's: the functions below take it as
  their first argument \<open>lower\<close>, and every theorem about them holds for whatever function
  it is. On strings whose code points are all below 256 it is \<open>lower_latin1\<close>: the
  letters A to Z and the Latin-1 capitals U+00C0 to U+00DE, the multiplication sign
  U+00D7 apart, move up by 32, and every other code point stays. The concrete inputs
  below are evaluated with it.
\<close>

definition lower_cp :: "nat \<Rightarrow> nat" where
  "lower_cp c =
     (if (65 \<le> c \<and> c \<le> 90) \<or> (192 \<le> c \<and> c \<le> 222 \<and> c \<noteq> 215) then c + 32 else c)"

definition lower_latin1 :: "str \<Rightarrow> str" where
  "lower_latin1 s = map lower_cp s"

section \<open>The helper functions\<close>

subsection \<open>\<^verbatim>\<open>process_message\<close>: the reply\<close>

definition reply_greeting :: str where
  "reply_greeting =
     ascii ''Ol'' @ [0xE1] @ ascii ''! '' @ [0x1F44B]
     @ ascii '' Sou o assistente virtual da empresa. Como posso ajud'' @ [0xE1]
     @ ascii ''-lo hoje? Posso auxiliar com informa'' @ [0xE7, 0xF5]
     @ ascii ''es sobre pedidos, produtos, suporte t'' @ [0xE9] @ ascii ''cnico e muito mais!''"

definition reply_order :: str where
  "reply_order =
     [0x1F4E6] @ ascii '' Para consultar seu pedido, preciso do n'' @ [0xFA]
     @ ascii ''mero. Pode me informar o n'' @ [0xFA]
     @ ascii ''mero do pedido? Exemplo: #12345. Com essa informa'' @ [0xE7, 0xE3]
     @ ascii ''o, posso verificar o status, rastreamento e previs'' @ [0xE3]
     @ ascii ''o de entrega!''"

definition reply_product :: str where
  "reply_product =
     [0x1F6CD, 0xFE0F] @ ascii '' Temos diversos produtos dispon'' @ [0xED]
     @ ascii ''veis! Pode me dizer qual produto espec'' @ [0xED] @ ascii ''fico voc'' @ [0xEA]
     @ ascii '' tem interesse? Posso fornecer informa'' @ [0xE7, 0xF5]
     @ ascii ''es sobre caracter'' @ [0xED] @ ascii ''sticas, pre'' @ [0xE7]
     @ ascii ''os, disponibilidade e formas de pagamento.''"

definition reply_support :: str where
  "reply_support =
     [0x1F6E0, 0xFE0F] @ ascii '' Sinto muito pelo inconveniente! Vou ajudar voc'' @ [0xEA]
     @ ascii '' a resolver isso. Pode me descrever o problema com mais detalhes? Qual produto est''
     @ [0xE1] @ ascii '' apresentando problema e o que exatamente est'' @ [0xE1]
     @ ascii '' acontecendo?''"

definition reply_billing :: str where
  "reply_billing =
     [0x1F4B0] @ ascii '' Quest'' @ [0xF5] @ ascii ''es de cobran'' @ [0xE7] @ ascii ''a s''
     @ [0xE3] @ ascii ''o importantes! Posso ajudar com d'' @ [0xFA]
     @ ascii ''vidas sobre sua fatura, formas de pagamento, vencimentos e negocia''
     @ [0xE7, 0xE3] @ ascii ''o. Qual '' @ [0xE9] @ ascii '' sua d'' @ [0xFA]
     @ ascii ''vida espec'' @ [0xED] @ ascii ''fica sobre cobran'' @ [0xE7] @ ascii ''a?''"

definition reply_cancel :: str where
  "reply_cancel =
     [0x274C] @ ascii '' Entendi que voc'' @ [0xEA]
     @ ascii '' deseja cancelar algo. Para processar seu cancelamento de forma adequada, preciso de mais informa''
     @ [0xE7, 0xF5] @ ascii ''es. O que voc'' @ [0xEA]
     @ ascii '' gostaria de cancelar? Pedido, assinatura ou outro servi'' @ [0xE7] @ ascii ''o?''"

definition reply_thanks :: str where
  "reply_thanks =
     [0x1F60A]
     @ ascii '' Fico feliz em ter ajudado! Se precisar de mais alguma coisa, estarei sempre aqui. Tenha um ''
     @ [0xF3] @ ascii ''timo dia! '' @ [0x2B50]"

definition reply_default :: str where
  "reply_default =
     [0x1F914] @ ascii '' Interessante! Estou processando sua solicita'' @ [0xE7, 0xE3]
     @ ascii ''o. Embora eu possa ajudar com diversas quest'' @ [0xF5]
     @ ascii ''es, para esta situa'' @ [0xE7, 0xE3] @ ascii ''o espec'' @ [0xED]
     @ ascii ''fica, que tal falar com um de nossos especialistas? Eles ter'' @ [0xE3]
     @ ascii ''o todo prazer em ajudar voc'' @ [0xEA] @ ascii ''!''"

definition process_message :: "(str \<Rightarrow> str) \<Rightarrow> ChatMessage \<Rightarrow> str" where
  "process_message lower msg =
     (let user_msg = lower (message msg) in
      if any_in [ascii ''ol'' @ [0xE1], ascii ''oi'', ascii ''bom dia'', ascii ''boa tarde'']
           user_msg
      then reply_greeting
      else if any_in [ascii ''pedido'', ascii ''status'', ascii ''encomenda''] user_msg
      then reply_order
      else if any_in [ascii ''produto'', ascii ''pre'' @ [0xE7] @ ascii ''o'',
                      ascii ''informa'' @ [0xE7, 0xE3] @ ascii ''o''] user_msg
      then reply_product
      else if any_in [ascii ''problema'', ascii ''n'' @ [0xE3] @ ascii ''o funciona'',
                      ascii ''defeito'', ascii ''suporte''] user_msg
      then reply_support
      else if any_in [ascii ''cobran'' @ [0xE7] @ ascii ''a'', ascii ''fatura'',
                      ascii ''pagamento''] user_msg
      then reply_billing
      else if any_in [ascii ''cancelar'', ascii ''cancelamento''] user_msg
      then reply_cancel
      else if any_in [ascii ''obrigado'', ascii ''valeu'', ascii ''muito bom''] user_msg
      then reply_thanks
      else reply_default)"

subsection \<open>\<^verbatim>\<open>classify_intent\<close>: topic and confidence\<close>

definition classify_intent :: "(str \<Rightarrow> str) \<Rightarrow> str \<Rightarrow> Intent" where
  "classify_intent lower msg =
     (let message_lower = lower msg in
      if any_in [ascii ''pedido'', ascii ''status'', ascii ''encomenda'', ascii ''tracking'']
           message_lower
      then \<lparr>type = ascii ''order_status'', confidence = Float 0.95\<rparr>
      else if any_in [ascii ''produto'', ascii ''pre'' @ [0xE7] @ ascii ''o'',
                      ascii ''informa'' @ [0xE7, 0xE3] @ ascii ''o'', ascii ''detalhes'']
                message_lower
      then \<lparr>type = ascii ''product_info'', confidence = Float 0.90\<rparr>
      else if any_in [ascii ''cobran'' @ [0xE7] @ ascii ''a'', ascii ''fatura'',
                      ascii ''pagamento'', ascii ''valor''] message_lower
      then \<lparr>type = ascii ''billing'', confidence = Float 0.88\<rparr>
      else if any_in [ascii ''problema'', ascii ''defeito'',
                      ascii ''n'' @ [0xE3] @ ascii ''o funciona'', ascii ''suporte'']
                message_lower
      then \<lparr>type = ascii ''technical_support'', confidence = Float 0.92\<rparr>
      else if any_in [ascii ''reclama'' @ [0xE7, 0xE3] @ ascii ''o'', ascii ''insatisfeito'',
                      ascii ''ruim''] message_lower
      then \<lparr>type = ascii ''complaint'', confidence = Float 0.85\<rparr>
      else if any_in [ascii ''ol'' @ [0xE1], ascii ''oi'', ascii ''bom dia'', ascii ''boa tarde'']
                message_lower
      then \<lparr>type = ascii ''greeting'', confidence = Float 0.98\<rparr>
      else \<lparr>type = ascii ''general_inquiry'', confidence = Float 0.70\<rparr>)"

subsection \<open>\<^verbatim>\<open>should_transfer_to_human\<close>: the handoff rule\<close>

definition human_keywords :: "str list" where
  "human_keywords =
     [ascii ''falar com'', ascii ''atendente'', ascii ''pessoa'', ascii ''humano'',
      ascii ''gerente'', ascii ''supervis'' @ [0xE3] @ ascii ''o'']"

definition should_transfer_to_human :: "(str \<Rightarrow> str) \<Rightarrow> str \<Rightarrow> Intent \<Rightarrow> bool" where
  "should_transfer_to_human lower msg intent' =
     (if any_in human_keywords (lower msg) then True
      else if type intent' = ascii ''complaint'' \<and> float_gt (Intent.confidence intent') (Float 0.8)
      then True
      else if float_lt (Intent.confidence intent') (Float 0.7) then True
      else False)"

subsection \<open>\<^verbatim>\<open>generate_suggestions\<close>: the follow-up actions\<close>

text \<open>The dictionary \<^verbatim>\<open>suggestions\<close>, in the order of its entries.\<close>

definition suggestions :: "(str \<times> str list) list" where
  "suggestions =
     [(ascii ''order_status'',
        [[0x1F4E6] @ ascii '' Consultar outro pedido'',
         [0x1F4F1] @ ascii '' Receber notifica'' @ [0xE7, 0xF5] @ ascii ''es por WhatsApp'',
         [0x1F4E7] @ ascii '' Falar com atendente'']),
      (ascii ''product_info'',
        [[0x1F6CD, 0xFE0F] @ ascii '' Ver produtos similares'',
         [0x1F4B0] @ ascii '' Consultar formas de pagamento'',
         [0x1F4DE] @ ascii '' Falar com vendedor'']),
      (ascii ''technical_support'',
        [[0x1F4CB] @ ascii '' Acessar tutorial'',
         [0x1F3A5] @ ascii '' Ver v'' @ [0xED] @ ascii ''deo explicativo'',
         [0x1F468, 0x200D, 0x1F4BB] @ ascii '' Falar com t'' @ [0xE9] @ ascii ''cnico'']),
      (ascii ''billing'',
        [[0x1F4B3] @ ascii '' Ver formas de pagamento'',
         [0x1F4C4] @ ascii '' Segunda via da fatura'',
         [0x1F4B0] @ ascii '' Negociar desconto'']),
      (ascii ''complaint'',
        [[0x1F4DD] @ ascii '' Abrir chamado formal'',
         [0x1F4DE] @ ascii '' Falar com supervisor'',
         [0x1F381] @ ascii '' Ver compensa'' @ [0xE7, 0xF5] @ ascii ''es''])]"

definition default_suggestions :: "str list" where
  "default_suggestions =
     [[0x2753] @ ascii '' Fazer outra pergunta'',
      [0x1F4DE] @ ascii '' Falar com atendente'',
      [0x1F3E0] @ ascii '' Voltar ao in'' @ [0xED] @ ascii ''cio'']"

text \<open>\<^verbatim>\<open>d.get(key, default)\<close> on a dictionary given by its entries.\<close>

definition dict_get :: "('k \<times> 'v) list \<Rightarrow> 'k \<Rightarrow> 'v \<Rightarrow> 'v" where
  "dict_get d key dflt = (case map_of d key of Some v \<Rightarrow> v | None \<Rightarrow> dflt)"

definition generate_suggestions :: "Intent \<Rightarrow> str \<Rightarrow> str list" where
  "generate_suggestions intent' msg =
     (let intent_type = type intent' in dict_get suggestions intent_type default_suggestions)"

section \<open>The handler of \<^verbatim>\<open>POST /chat\<close>\<close>

text \<open>
  The constructor of \<^verbatim>\<open>ChatResponse\<close> checks \<^verbatim>\<open>ge=0, le=1\<close> on the confidence and
  raises otherwise; the handler's \<^verbatim>\<open>except\<close> clause answers every exception with status
  500.
\<close>

definition new_ChatResponse :: "ChatResponse \<Rightarrow> error + ChatResponse" where
  "new_ChatResponse r =
     (if float_ge (ChatResponse.confidence r) (Float 0) \<and> float_le (ChatResponse.confidence r) (Float 1)
      then Inr r else Inl HTTP_500)"

text \<open>
  \<open>stamp\<close> is \<^verbatim>\<open>datetime.now().strftime('%Y%m%d_%H%M%S')\<close> and \<open>now\<close> the value of the
  default factory of \<^verbatim>\<open>timestamp\<close>. A local variable that has the name of a field of
  the response is primed. The log lines and the background task
  \<^verbatim>\<open>log_conversation\<close>, which only writes a log line, leave the response as it is.
\<close>

definition chat :: "(str \<Rightarrow> str) \<Rightarrow> str \<Rightarrow> datetime \<Rightarrow> ChatMessage \<Rightarrow> error + ChatResponse" where
  "chat lower stamp now msg =
     (let response_text = process_message lower msg;
          intent' = classify_intent lower (message msg);
          confidence' = Float 0.95;
          requires_human' = should_transfer_to_human lower (message msg) intent';
          suggested_actions' = generate_suggestions intent' (message msg);
          session_id' = ascii ''session_'' @ user_id msg @ ascii ''_'' @ stamp
      in new_ChatResponse
           \<lparr>response = response_text,
            intent = type intent',
            confidence = confidence',
            requires_human = requires_human',
            suggested_actions = suggested_actions',
            session_id = session_id',
            timestamp = now\<rparr>)"

section \<open>What the specification says, in its own words\<close>

text \<open>A string contains a word when the word is one of its contiguous pieces.\<close>

definition occurs_in :: "str \<Rightarrow> str \<Rightarrow> bool" where
  "occurs_in word s = (\<exists>pre post. s = pre @ word @ post)"

definition any_occurs :: "str list \<Rightarrow> str \<Rightarrow> bool" where
  "any_occurs words s = (\<exists>word \<in> set words. occurs_in word s)"

text \<open>
  The classifier of section 4.1 of the specification: a table of trigger lists in the
  priority order order_status, product_info, billing, technical_support, complaint,
  greeting, each with its topic and its constant; the first list with a member in the
  lower-cased message wins, and no match is general_inquiry at 0.70.
\<close>

definition intent_rules :: "(str list \<times> Intent) list" where
  "intent_rules =
     [([ascii ''pedido'', ascii ''status'', ascii ''encomenda'', ascii ''tracking''],
       \<lparr>type = ascii ''order_status'', confidence = Float 0.95\<rparr>),
      ([ascii ''produto'', ascii ''pre'' @ [0xE7] @ ascii ''o'',
        ascii ''informa'' @ [0xE7, 0xE3] @ ascii ''o'', ascii ''detalhes''],
       \<lparr>type = ascii ''product_info'', confidence = Float 0.90\<rparr>),
      ([ascii ''cobran'' @ [0xE7] @ ascii ''a'', ascii ''fatura'', ascii ''pagamento'',
        ascii ''valor''],
       \<lparr>type = ascii ''billing'', confidence = Float 0.88\<rparr>),
      ([ascii ''problema'', ascii ''defeito'', ascii ''n'' @ [0xE3] @ ascii ''o funciona'',
        ascii ''suporte''],
       \<lparr>type = ascii ''technical_support'', confidence = Float 0.92\<rparr>),
      ([ascii ''reclama'' @ [0xE7, 0xE3] @ ascii ''o'', ascii ''insatisfeito'', ascii ''ruim''],
       \<lparr>type = ascii ''complaint'', confidence = Float 0.85\<rparr>),
      ([ascii ''ol'' @ [0xE1], ascii ''oi'', ascii ''bom dia'', ascii ''boa tarde''],
       \<lparr>type = ascii ''greeting'', confidence = Float 0.98\<rparr>)]"

fun first_match :: "(str list \<times> Intent) list \<Rightarrow> str \<Rightarrow> Intent" where
  "first_match [] s = \<lparr>type = ascii ''general_inquiry'', confidence = Float 0.70\<rparr>"
| "first_match ((words, result) # rules) s =
     (if any_occurs words s then result else first_match rules s)"

definition spec_classify :: "str \<Rightarrow> Intent" where
  "spec_classify lowered = first_match intent_rules lowered"


text \<open>The constant of each topic, read off the table.\<close>

definition topic_confidence :: "str \<Rightarrow> pyfloat" where
  "topic_confidence topic =
     dict_get (map (\<lambda>rule. (type (snd rule), Intent.confidence (snd rule))) intent_rules)
       topic (Float 0.70)"

text \<open>
  The handoff rule of section 4.3: a human-request phrase in the lower-cased message, or
  a complaint with confidence above 0.8, or a confidence below 0.7.
\<close>

definition spec_handoff :: "str \<Rightarrow> str \<Rightarrow> pyfloat \<Rightarrow> bool" where
  "spec_handoff lowered topic conf =
     (any_occurs [ascii ''falar com'', ascii ''atendente'', ascii ''pessoa'', ascii ''humano'',
                  ascii ''gerente'', ascii ''supervis'' @ [0xE3] @ ascii ''o''] lowered
      \<or> (topic = ascii ''complaint'' \<and> float_gt conf (Float 0.8))
      \<or> float_lt conf (Float 0.7))"

text \<open>The constants of the data model's invariant.\<close>

definition confidence_constants :: "pyfloat set" where
  "confidence_constants =
     {Float 0.98, Float 0.95, Float 0.92, Float 0.90, Float 0.88, Float 0.85, Float 0.70}"

section \<open>Concrete requests\<close>

definition req_u1 :: ChatMessage where
  "req_u1 = \<lparr>user_id = ascii ''u1'', message = ascii ''Qual o status do meu pedido #123?'',
             channel = ascii ''web''\<rparr>"

definition req_u2 :: ChatMessage where
  "req_u2 = \<lparr>user_id = ascii ''u2'', message = ascii ''Quero falar com um atendente'',
             channel = ascii ''web''\<rparr>"


definition req_support_tracking :: ChatMessage where
  "req_support_tracking =
     \<lparr>user_id = ascii ''u5'', message = ascii ''suporte tracking'', channel = ascii ''web''\<rparr>"

definition req_u7 :: ChatMessage where
  "req_u7 = \<lparr>user_id = ascii ''u7'', message = ascii ''oi'', channel = ascii ''web''\<rparr>"

definition req_u3 :: ChatMessage where
  "req_u3 = \<lparr>user_id = ascii ''u3'', message = ascii ''xyz123'', channel = ascii ''web''\<rparr>"

definition stamp0 :: str where
  "stamp0 = ascii ''20240102_030405''"

definition now0 :: datetime where
  "now0 = \<lparr>year = 2024, month = 1, day = 2, hour = 3, minute = 4, second = 5,
            microsecond = 6\<rparr>"

section \<open>Strings: the test of the code is containment\<close>

lemma startswith_iff: "startswith s word = (\<exists>post. s = word @ post)"
  by (induction s word rule: startswith.induct) auto

lemma str_in_iff: "str_in word s = occurs_in word s"
proof (induction s)
  case Nil
  show ?case by (simp add: occurs_in_def)
next
  case (Cons c cs)
  have "occurs_in word (c # cs) = ((\<exists>post. c # cs = word @ post) \<or> occurs_in word cs)"
  proof
    assume "occurs_in word (c # cs)"
    then obtain pre post where e: "c # cs = pre @ word @ post"
      unfolding occurs_in_def by blast
    show "(\<exists>post. c # cs = word @ post) \<or> occurs_in word cs"
    proof (cases pre)
      case Nil
      with e show ?thesis by auto
    next
      case (Cons p ps)
      with e have "cs = ps @ word @ post" by simp
      then show ?thesis unfolding occurs_in_def by blast
    qed
  next
    assume "(\<exists>post. c # cs = word @ post) \<or> occurs_in word cs"
    then show "occurs_in word (c # cs)"
    proof
      assume "\<exists>post. c # cs = word @ post"
      then obtain post where "c # cs = [] @ word @ post" by auto
      then show ?thesis unfolding occurs_in_def by blast
    next
      assume "occurs_in word cs"
      then obtain pre post where "cs = pre @ word @ post"
        unfolding occurs_in_def by blast
      then have "c # cs = (c # pre) @ word @ post" by simp
      then show ?thesis unfolding occurs_in_def by blast
    qed
  qed
  with Cons show ?case by (simp add: startswith_iff)
qed

lemma any_in_iff: "any_in words s = any_occurs words s"
  by (simp add: any_in_def any_occurs_def list_ex_iff str_in_iff)

lemma occurs_in_map: "occurs_in word s \<Longrightarrow> occurs_in (map f word) (map f s)"
  unfolding occurs_in_def by (metis map_append)

lemma any_occurs_Cons: "any_occurs (word # rest) s = (occurs_in word s \<or> any_occurs rest s)"
  by (simp add: any_occurs_def)

text \<open>\<open>lower_latin1\<close> keeps a word that is in lower case already.\<close>

lemma lower_latin1_keeps:
  assumes "occurs_in word s" and "map lower_cp word = word"
  shows "occurs_in word (lower_latin1 s)"
  using occurs_in_map [OF assms(1), of lower_cp] assms(2) by (simp add: lower_latin1_def)

lemma order_words_lower:
  "map lower_cp (ascii ''pedido'') = ascii ''pedido''"
  "map lower_cp (ascii ''status'') = ascii ''status''"
  "map lower_cp (ascii ''encomenda'') = ascii ''encomenda''"
  by (simp_all add: ascii_def lower_cp_def)

section \<open>The classifier\<close>

text \<open>The chain of \<^verbatim>\<open>if\<close> and \<^verbatim>\<open>elif\<close> is the first match in the rule table.\<close>

lemma classify_intent_first_match:
  "classify_intent lower msg = first_match intent_rules (lower msg)"
  by (simp add: classify_intent_def intent_rules_def any_in_iff Let_def)

lemma order_status_first:
  assumes "occurs_in (ascii ''pedido'') s \<or> occurs_in (ascii ''status'') s
           \<or> occurs_in (ascii ''encomenda'') s"
  shows "first_match intent_rules s = \<lparr>type = ascii ''order_status'', confidence = Float 0.95\<rparr>"
proof -
  from assms have "any_occurs [ascii ''pedido'', ascii ''status'', ascii ''encomenda'',
      ascii ''tracking''] s"
    by (simp only: any_occurs_Cons) blast
  then show ?thesis by (simp add: intent_rules_def)
qed

lemma first_match_confidence:
  "Intent.confidence (first_match intent_rules s) \<in> confidence_constants"
  by (simp add: intent_rules_def confidence_constants_def)

lemma classify_no_keyword_u3:
  "classify_intent lower_latin1 (message req_u3)
   = \<lparr>type = ascii ''general_inquiry'', confidence = Float 0.70\<rparr>"
  by (simp add: classify_intent_def any_in_def req_u3_def ascii_def lower_latin1_def lower_cp_def)

lemma occurs_u1: "occurs_in (ascii ''status'') (lower_latin1 (message req_u1))"
  unfolding str_in_iff [symmetric]
  by (simp add: req_u1_def ascii_def lower_latin1_def lower_cp_def)

lemma occurs_u1_raw: "occurs_in (ascii ''status'') (message req_u1)"
  unfolding str_in_iff [symmetric]
  by (simp add: req_u1_def ascii_def)

text \<open>
  Claim C6. For every message, \<^verbatim>\<open>classify_intent\<close> lower-cases the message and returns
  the entry of the first trigger list, in the order order_status, product_info, billing,
  technical_support, complaint, greeting, that has a member contained in it, with that
  topic's constant, and general_inquiry at 0.70 when no list matches. So a message whose
  lower-cased form contains "pedido", "status" or "encomenda" is order_status at 0.95;
  and so is, for the lower-casing of Latin-1 strings, a message that itself contains one
  of these words.
\<close>

theorem classify_intent_priority:
  "classify_intent lower msg = spec_classify (lower msg)
   \<and> map (\<lambda>rule. type (snd rule)) intent_rules =
       [ascii ''order_status'', ascii ''product_info'', ascii ''billing'',
        ascii ''technical_support'', ascii ''complaint'', ascii ''greeting'']
   \<and> (occurs_in (ascii ''pedido'') (lower msg) \<or> occurs_in (ascii ''status'') (lower msg)
        \<or> occurs_in (ascii ''encomenda'') (lower msg)
       \<longrightarrow> classify_intent lower msg
             = \<lparr>type = ascii ''order_status'', confidence = Float 0.95\<rparr>)
   \<and> (occurs_in (ascii ''pedido'') msg \<or> occurs_in (ascii ''status'') msg
        \<or> occurs_in (ascii ''encomenda'') msg
       \<longrightarrow> classify_intent lower_latin1 msg
             = \<lparr>type = ascii ''order_status'', confidence = Float 0.95\<rparr>)"
proof (intro conjI impI)
  show "classify_intent lower msg = spec_classify (lower msg)"
    by (simp add: classify_intent_first_match spec_classify_def)
  show "map (\<lambda>rule. type (snd rule)) intent_rules =
       [ascii ''order_status'', ascii ''product_info'', ascii ''billing'',
        ascii ''technical_support'', ascii ''complaint'', ascii ''greeting'']"
    by (simp add: intent_rules_def)
next
  assume "occurs_in (ascii ''pedido'') (lower msg) \<or> occurs_in (ascii ''status'') (lower msg)
        \<or> occurs_in (ascii ''encomenda'') (lower msg)"
  then show "classify_intent lower msg
             = \<lparr>type = ascii ''order_status'', confidence = Float 0.95\<rparr>"
    by (simp only: classify_intent_first_match order_status_first)
next
  assume "occurs_in (ascii ''pedido'') msg \<or> occurs_in (ascii ''status'') msg
        \<or> occurs_in (ascii ''encomenda'') msg"
  then have "occurs_in (ascii ''pedido'') (lower_latin1 msg)
     \<or> occurs_in (ascii ''status'') (lower_latin1 msg)
     \<or> occurs_in (ascii ''encomenda'') (lower_latin1 msg)"
    using lower_latin1_keeps order_words_lower by blast
  then show "classify_intent lower_latin1 msg
             = \<lparr>type = ascii ''order_status'', confidence = Float 0.95\<rparr>"
    by (simp only: classify_intent_first_match order_status_first)
qed

theorem classify_intent_priority_witness:
  "occurs_in (ascii ''status'') (lower_latin1 (message req_u1))
   \<and> occurs_in (ascii ''status'') (message req_u1)
   \<and> classify_intent lower_latin1 (message req_u1) = spec_classify (lower_latin1 (message req_u1))
   \<and> classify_intent lower_latin1 (message req_u1)
       = \<lparr>type = ascii ''order_status'', confidence = Float 0.95\<rparr>"
  using classify_intent_priority [of lower_latin1 "message req_u1"] occurs_u1 occurs_u1_raw
  by blast


(* C5 *)

section \<open>The handoff rule\<close>

lemma should_transfer_rule:
  "should_transfer_to_human lower msg i
   = spec_handoff (lower msg) (type i) (Intent.confidence i)"
  by (simp add: should_transfer_to_human_def spec_handoff_def human_keywords_def any_in_iff)

lemma atendente_u2: "any_in human_keywords (lower_latin1 (message req_u2))"
  by (simp add: any_in_def human_keywords_def req_u2_def ascii_def lower_latin1_def lower_cp_def)

text \<open>
  Claim C5. \<^verbatim>\<open>should_transfer_to_human\<close> returns true exactly when the lower-cased
  message contains one of the six human-request phrases, or the topic is complaint and
  the confidence is above 0.8, or the confidence is below 0.7. For the message
  "Quero falar com um atendente" it returns true whatever the intent is.
\<close>

theorem should_transfer_to_human_rule:
  "should_transfer_to_human lower msg i
     = spec_handoff (lower msg) (type i) (Intent.confidence i)
   \<and> should_transfer_to_human lower_latin1 (ascii ''Quero falar com um atendente'') i"
proof
  show "should_transfer_to_human lower msg i
     = spec_handoff (lower msg) (type i) (Intent.confidence i)"
    by (rule should_transfer_rule)
  have "any_in human_keywords (lower_latin1 (ascii ''Quero falar com um atendente''))"
    using atendente_u2 by (simp add: req_u2_def)
  then show "should_transfer_to_human lower_latin1 (ascii ''Quero falar com um atendente'') i"
    by (simp add: should_transfer_to_human_def)
qed

theorem should_transfer_to_human_rule_witness:
  "spec_handoff (lower_latin1 (ascii ''xyz123'')) (ascii ''complaint'') (Float 0.85)
   \<and> \<not> spec_handoff (lower_latin1 (ascii ''xyz123'')) (ascii ''complaint'') (Float 0.8)
   \<and> \<not> spec_handoff (lower_latin1 (ascii ''xyz123'')) (ascii ''greeting'') (Float 0.7)
   \<and> \<not> spec_handoff (lower_latin1 (ascii ''xyz123'')) (ascii ''greeting'') NaN
   \<and> spec_handoff (lower_latin1 (ascii ''xyz123'')) (ascii ''greeting'') (Float 0.69)"
proof -
  have a: "should_transfer_to_human lower_latin1 (ascii ''xyz123'')
             \<lparr>type = ascii ''complaint'', confidence = Float 0.85\<rparr>"
    by (simp add: should_transfer_to_human_def any_in_def human_keywords_def ascii_def
        lower_latin1_def lower_cp_def)
  have b: "\<not> should_transfer_to_human lower_latin1 (ascii ''xyz123'')
             \<lparr>type = ascii ''complaint'', confidence = Float 0.8\<rparr>"
    by (simp add: should_transfer_to_human_def any_in_def human_keywords_def ascii_def
        lower_latin1_def lower_cp_def)
  have c: "\<not> should_transfer_to_human lower_latin1 (ascii ''xyz123'')
             \<lparr>type = ascii ''greeting'', confidence = Float 0.7\<rparr>"
    by (simp add: should_transfer_to_human_def any_in_def human_keywords_def ascii_def
        lower_latin1_def lower_cp_def)
  have d: "\<not> should_transfer_to_human lower_latin1 (ascii ''xyz123'')
             \<lparr>type = ascii ''greeting'', confidence = NaN\<rparr>"
    by (simp add: should_transfer_to_human_def any_in_def human_keywords_def ascii_def
        lower_latin1_def lower_cp_def)
  have e: "should_transfer_to_human lower_latin1 (ascii ''xyz123'')
             \<lparr>type = ascii ''greeting'', confidence = Float 0.69\<rparr>"
    by (simp add: should_transfer_to_human_def any_in_def human_keywords_def ascii_def
        lower_latin1_def lower_cp_def)
  show ?thesis
    using a b c d e
      should_transfer_to_human_rule [of lower_latin1 "ascii ''xyz123''"
        "\<lparr>type = ascii ''complaint'', confidence = Float 0.85\<rparr>"]
      should_transfer_to_human_rule [of lower_latin1 "ascii ''xyz123''"
        "\<lparr>type = ascii ''complaint'', confidence = Float 0.8\<rparr>"]
      should_transfer_to_human_rule [of lower_latin1 "ascii ''xyz123''"
        "\<lparr>type = ascii ''greeting'', confidence = Float 0.7\<rparr>"]
      should_transfer_to_human_rule [of lower_latin1 "ascii ''xyz123''"
        "\<lparr>type = ascii ''greeting'', confidence = NaN\<rparr>"]
      should_transfer_to_human_rule [of lower_latin1 "ascii ''xyz123''"
        "\<lparr>type = ascii ''greeting'', confidence = Float 0.69\<rparr>"]
    by simp
qed

(* C8 *)

text \<open>
  Claim C8. A confidence below 0.7 makes \<^verbatim>\<open>should_transfer_to_human\<close> return true,
  whatever the message and the topic; the classifier never produces such a confidence:
  its output is at least 0.70, and 0.70 is what it returns for "xyz123".
\<close>

theorem low_confidence_transfers:
  "(float_lt (Intent.confidence i) (Float 0.7) \<longrightarrow> should_transfer_to_human lower msg i)
   \<and> \<not> float_lt (Intent.confidence (classify_intent lower msg)) (Float 0.7)
   \<and> float_ge (Intent.confidence (classify_intent lower msg)) (Float 0.70)
   \<and> Intent.confidence (classify_intent lower_latin1 (message req_u3)) = Float 0.70"
proof (intro conjI impI)
  assume "float_lt (Intent.confidence i) (Float 0.7)"
  then show "should_transfer_to_human lower msg i"
    by (simp add: should_transfer_to_human_def)
next
  have "Intent.confidence (classify_intent lower msg) \<in> confidence_constants"
    by (simp only: classify_intent_first_match first_match_confidence)
  then show "\<not> float_lt (Intent.confidence (classify_intent lower msg)) (Float 0.7)"
    and "float_ge (Intent.confidence (classify_intent lower msg)) (Float 0.70)"
    by (auto simp add: confidence_constants_def)
next
  show "Intent.confidence (classify_intent lower_latin1 (message req_u3)) = Float 0.70"
    by (simp add: classify_no_keyword_u3)
qed

theorem low_confidence_transfers_witness:
  "float_lt (Intent.confidence \<lparr>type = ascii ''greeting'', confidence = Float 0.5\<rparr>) (Float 0.7)
   \<and> should_transfer_to_human lower_latin1 (ascii ''xyz123'')
        \<lparr>type = ascii ''greeting'', confidence = Float 0.5\<rparr>"
  using low_confidence_transfers [of "\<lparr>type = ascii ''greeting'', confidence = Float 0.5\<rparr>"
      lower_latin1 "ascii ''xyz123''"]
  by simp

section \<open>The reply and the topic\<close>










lemma replies_distinct:
  "distinct [reply_greeting, reply_order, reply_product, reply_support, reply_billing,
             reply_cancel, reply_thanks, reply_default]"
  by (simp add: reply_greeting_def reply_order_def reply_product_def reply_support_def
      reply_billing_def reply_cancel_def reply_thanks_def reply_default_def ascii_def)

text \<open>
  The word "suporte" is in the trigger lists of both functions, and the message "suporte"
  alone gets the support reply and the topic technical_support.
\<close>

lemma suporte_alone:
  "process_message lower_latin1 \<lparr>user_id = ascii ''u6'', message = ascii ''suporte'', channel = ascii ''web''\<rparr>
     = reply_support
   \<and> classify_intent lower_latin1 (ascii ''suporte'')
     = \<lparr>type = ascii ''technical_support'', confidence = Float 0.92\<rparr>"
  by (simp add: process_message_def classify_intent_def any_in_def ascii_def lower_latin1_def
      lower_cp_def)

text \<open>
  Claim C4. There is a message containing "suporte" for which \<^verbatim>\<open>process_message\<close>
  returns the support reply, a reply of no other branch, and \<^verbatim>\<open>classify_intent\<close> does
  not return technical_support: "suporte tracking", where the classifier finds "tracking"
  first and says order_status.
\<close>

theorem support_reply_without_support_topic:
  "(\<exists>msg. occurs_in (ascii ''suporte'') (message msg)
      \<and> process_message lower_latin1 msg = reply_support
      \<and> type (classify_intent lower_latin1 (message msg)) \<noteq> ascii ''technical_support'')
   \<and> reply_support \<notin> {reply_greeting, reply_order, reply_product, reply_billing,
                         reply_cancel, reply_thanks, reply_default}"
proof (intro exI conjI)
  show "occurs_in (ascii ''suporte'') (message req_support_tracking)"
    unfolding str_in_iff [symmetric] by (simp add: req_support_tracking_def ascii_def)
  show "process_message lower_latin1 req_support_tracking = reply_support"
    by (simp add: process_message_def any_in_def req_support_tracking_def ascii_def
        lower_latin1_def lower_cp_def)
  have "classify_intent lower_latin1 (message req_support_tracking)
        = \<lparr>type = ascii ''order_status'', confidence = Float 0.95\<rparr>"
    by (simp add: classify_intent_def any_in_def req_support_tracking_def ascii_def
        lower_latin1_def lower_cp_def)
  then show "type (classify_intent lower_latin1 (message req_support_tracking))
        \<noteq> ascii ''technical_support''"
    by (simp add: ascii_def)
  show "reply_support \<notin> {reply_greeting, reply_order, reply_product, reply_billing,
                         reply_cancel, reply_thanks, reply_default}"
    using replies_distinct by auto
qed

section \<open>The suggestions\<close>

lemma dict_get_cases:
  "dict_get d key dflt = dflt \<or> (key, dict_get d key dflt) \<in> set d"
  by (auto simp add: dict_get_def dest: map_of_SomeD split: option.splits)

lemma dict_get_absent:
  assumes "key \<notin> set (map fst d)"
  shows "dict_get d key dflt = dflt"
proof -
  from assms have "map_of d key = None" by (simp add: map_of_eq_None_iff)
  then show ?thesis by (simp add: dict_get_def)
qed

lemma dict_get_present:
  "key \<in> set (map fst d) \<Longrightarrow> (key, dict_get d key dflt) \<in> set d"
  by (auto simp add: dict_get_def dest: map_of_SomeD weak_map_of_SomeI split: option.splits)

lemma suggestions_lengths:
  "list_all (\<lambda>entry. length (snd entry) = 3) suggestions \<and> length default_suggestions = 3"
  by (simp add: suggestions_def default_suggestions_def)

lemma generate_suggestions_length: "length (generate_suggestions i msg) = 3"
proof -
  let ?l = "dict_get suggestions (type i) default_suggestions"
  have "?l = default_suggestions \<or> (type i, ?l) \<in> set suggestions"
    by (rule dict_get_cases)
  then have "length ?l = 3"
    using suggestions_lengths by (auto simp add: list_all_iff)
  then show ?thesis by (simp add: generate_suggestions_def)
qed

section \<open>The response of the handler\<close>

lemma chat_returns:
  "chat lower stamp now msg =
   Inr \<lparr>response = process_message lower msg,
        intent = type (classify_intent lower (message msg)),
        confidence = Float 0.95,
        requires_human =
          should_transfer_to_human lower (message msg) (classify_intent lower (message msg)),
        suggested_actions =
          generate_suggestions (classify_intent lower (message msg)) (message msg),
        session_id = ascii ''session_'' @ user_id msg @ ascii ''_'' @ stamp,
        timestamp = now\<rparr>"
  by (simp add: chat_def new_ChatResponse_def Let_def)

text \<open>
  Claim C9. \<^verbatim>\<open>generate_suggestions\<close> returns three strings for every intent: the list
  of the table for order_status, product_info, technical_support, billing and complaint,
  and the default list for every other topic. So \<^verbatim>\<open>suggested_actions\<close> has three
  entries in every response.
\<close>

theorem three_suggestions:
  "length (generate_suggestions i msg) = 3
   \<and> map fst suggestions =
       [ascii ''order_status'', ascii ''product_info'', ascii ''technical_support'',
        ascii ''billing'', ascii ''complaint'']
   \<and> (type i \<in> set (map fst suggestions)
        \<longrightarrow> (type i, generate_suggestions i msg) \<in> set suggestions)
   \<and> (type i \<notin> set (map fst suggestions)
        \<longrightarrow> generate_suggestions i msg = default_suggestions)
   \<and> (\<exists>r. chat lower stamp now req = Inr r \<and> length (suggested_actions r) = 3)"
proof (intro conjI impI)
  show "length (generate_suggestions i msg) = 3" by (rule generate_suggestions_length)
  show "map fst suggestions =
       [ascii ''order_status'', ascii ''product_info'', ascii ''technical_support'',
        ascii ''billing'', ascii ''complaint'']"
    by (simp add: suggestions_def)
  show "\<exists>r. chat lower stamp now req = Inr r \<and> length (suggested_actions r) = 3"
    by (simp add: chat_returns generate_suggestions_length)
next
  assume "type i \<in> set (map fst suggestions)"
  then have "(type i, dict_get suggestions (type i) default_suggestions) \<in> set suggestions"
    by (rule dict_get_present)
  then show "(type i, generate_suggestions i msg) \<in> set suggestions"
    by (simp add: generate_suggestions_def)
next
  assume "type i \<notin> set (map fst suggestions)"
  then have "dict_get suggestions (type i) default_suggestions = default_suggestions"
    by (rule dict_get_absent)
  then show "generate_suggestions i msg = default_suggestions"
    by (simp add: generate_suggestions_def)
qed

theorem three_suggestions_witness:
  "ascii ''billing'' \<in> set (map fst suggestions)
   \<and> ascii ''greeting'' \<notin> set (map fst suggestions)
   \<and> generate_suggestions \<lparr>type = ascii ''greeting'', confidence = Float 0.98\<rparr> (ascii ''oi'')
       = default_suggestions
   \<and> (ascii ''billing'',
       generate_suggestions \<lparr>type = ascii ''billing'', confidence = Float 0.88\<rparr> (ascii ''fatura''))
      \<in> set suggestions
   \<and> length (generate_suggestions \<lparr>type = ascii ''billing'', confidence = Float 0.88\<rparr>
        (ascii ''fatura'')) = 3"
proof -
  let ?b = "\<lparr>type = ascii ''billing'', confidence = Float 0.88\<rparr>"
  let ?g = "\<lparr>type = ascii ''greeting'', confidence = Float 0.98\<rparr>"
  have a: "ascii ''billing'' \<in> set (map fst suggestions)"
    by (simp add: suggestions_def)
  have b: "ascii ''greeting'' \<notin> set (map fst suggestions)"
    by (simp add: suggestions_def ascii_def)
  have a': "type ?b \<in> set (map fst suggestions)" using a by simp
  have b': "type ?g \<notin> set (map fst suggestions)" using b by simp
  have tb: "type ?b = ascii ''billing''" by simp
  from a' three_suggestions [of ?b "ascii ''fatura''" lower_latin1 stamp0 now0 req_u3]
  have c: "(type ?b, generate_suggestions ?b (ascii ''fatura'')) \<in> set suggestions"
    and d: "length (generate_suggestions ?b (ascii ''fatura'')) = 3"
    by blast+
  from b' three_suggestions [of ?g "ascii ''oi''" lower_latin1 stamp0 now0 req_u3]
  have e: "generate_suggestions ?g (ascii ''oi'') = default_suggestions"
    by blast
  from c tb have c': "(ascii ''billing'', generate_suggestions ?b (ascii ''fatura''))
      \<in> set suggestions"
    by (simp only:)
  from a b e c' d show ?thesis by blast
qed

text \<open>
  Claim C10. Two intents of the same type get the same suggestions, whatever the two
  messages are: the message has no influence on the result.
\<close>

theorem suggestions_ignore_message:
  "type i = type i' \<Longrightarrow> generate_suggestions i msg = generate_suggestions i' msg'"
  by (simp add: generate_suggestions_def)

theorem suggestions_ignore_message_witness:
  "type \<lparr>type = ascii ''billing'', confidence = Float 0.88\<rparr>
     = type \<lparr>type = ascii ''billing'', confidence = NaN\<rparr>
   \<and> generate_suggestions \<lparr>type = ascii ''billing'', confidence = Float 0.88\<rparr> (ascii ''fatura'')
     = generate_suggestions \<lparr>type = ascii ''billing'', confidence = NaN\<rparr> (ascii ''xyz123'')"
  using suggestions_ignore_message [of "\<lparr>type = ascii ''billing'', confidence = Float 0.88\<rparr>"
      "\<lparr>type = ascii ''billing'', confidence = NaN\<rparr>" "ascii ''fatura''" "ascii ''xyz123''"]
  by simp

text \<open>
  Claim C1. The handler answers every request with a response whose confidence is 0.95,
  whatever the message is and whatever the classifier says: for the valid request with
  the message "xyz123" the classifier's confidence is 0.70, not 0.95.
\<close>

theorem chat_confidence_hardcoded:
  "(\<exists>r. chat lower stamp now msg = Inr r \<and> ChatResponse.confidence r = Float 0.95)
   \<and> valid_ChatMessage req_u3
   \<and> Intent.confidence (classify_intent lower_latin1 (message req_u3)) = Float 0.70
   \<and> Float 0.70 \<noteq> Float 0.95"
proof (intro conjI)
  show "\<exists>r. chat lower stamp now msg = Inr r \<and> ChatResponse.confidence r = Float 0.95"
    by (simp add: chat_returns)
  show "valid_ChatMessage req_u3"
    by (simp add: valid_ChatMessage_def req_u3_def ascii_def)
  show "Intent.confidence (classify_intent lower_latin1 (message req_u3)) = Float 0.70"
    by (simp add: classify_no_keyword_u3)
  show "Float 0.70 \<noteq> Float 0.95" by simp
qed

lemma no_handoff_u3:
  "\<not> should_transfer_to_human lower_latin1 (message req_u3)
       \<lparr>type = ascii ''general_inquiry'', confidence = Float 0.70\<rparr>"
  by (simp add: should_transfer_to_human_def any_in_def human_keywords_def req_u3_def ascii_def
      lower_latin1_def lower_cp_def)

lemma reply_u3: "process_message lower_latin1 req_u3 = reply_default"
  by (simp add: process_message_def any_in_def req_u3_def ascii_def lower_latin1_def lower_cp_def)

text \<open>
  Claim C2. The handler on user u3 with the message "xyz123", at a fixed time: the intent
  is general_inquiry and \<^verbatim>\<open>requires_human\<close> is false, as 0.70 is not below 0.7; the
  confidence of the response is 0.95, while the classifier's is 0.70.
\<close>

theorem chat_unmatched_u3:
  "chat lower_latin1 stamp0 now0 req_u3 =
     Inr \<lparr>response = reply_default,
          intent = ascii ''general_inquiry'',
          confidence = Float 0.95,
          requires_human = False,
          suggested_actions = default_suggestions,
          session_id = ascii ''session_u3_20240102_030405'',
          timestamp = now0\<rparr>
   \<and> classify_intent lower_latin1 (message req_u3)
       = \<lparr>type = ascii ''general_inquiry'', confidence = Float 0.70\<rparr>"
proof
  have "generate_suggestions \<lparr>type = ascii ''general_inquiry'', confidence = Float 0.70\<rparr>
          (message req_u3) = default_suggestions"
    by (simp add: generate_suggestions_def dict_get_def suggestions_def ascii_def)
  moreover have "ascii ''session_'' @ user_id req_u3 @ ascii ''_'' @ stamp0
     = ascii ''session_u3_20240102_030405''"
    by (simp add: req_u3_def stamp0_def ascii_def)
  ultimately show "chat lower_latin1 stamp0 now0 req_u3 =
     Inr \<lparr>response = reply_default,
          intent = ascii ''general_inquiry'',
          confidence = Float 0.95,
          requires_human = False,
          suggested_actions = default_suggestions,
          session_id = ascii ''session_u3_20240102_030405'',
          timestamp = now0\<rparr>"
    using no_handoff_u3 by (simp add: chat_returns classify_no_keyword_u3 reply_u3)
  show "classify_intent lower_latin1 (message req_u3)
       = \<lparr>type = ascii ''general_inquiry'', confidence = Float 0.70\<rparr>"
    by (rule classify_no_keyword_u3)
qed

lemma first_match_topic_confidence:
  "Intent.confidence (first_match intent_rules s)
   = topic_confidence (type (first_match intent_rules s))"
  by (simp add: intent_rules_def topic_confidence_def dict_get_def ascii_def)

text \<open>
  The classifier keeps the invariant of the data model: its confidence is one of 0.98,
  0.95, 0.92, 0.90, 0.88, 0.85 and 0.70, and it is the constant of the topic it returns.
\<close>

lemma classifier_confidence_of_topic:
  "Intent.confidence (classify_intent lower msg) \<in> confidence_constants
   \<and> Intent.confidence (classify_intent lower msg)
     = topic_confidence (type (classify_intent lower msg))"
proof
  show "Intent.confidence (classify_intent lower msg) \<in> confidence_constants"
    by (simp only: classify_intent_first_match first_match_confidence)
  show "Intent.confidence (classify_intent lower msg)
     = topic_confidence (type (classify_intent lower msg))"
    by (simp only: classify_intent_first_match first_match_topic_confidence)
qed

text \<open>
  The response does not: its confidence is in the set, as 0.95 is, for every request, but
  it is the literal of the handler and not the constant of the bucket that matched.
\<close>

lemma response_confidence_in_constants:
  "\<exists>r. chat lower stamp now req = Inr r \<and> ChatResponse.confidence r \<in> confidence_constants"
  by (simp add: chat_returns confidence_constants_def)

lemma classify_u7:
  "classify_intent lower_latin1 (message req_u7)
   = \<lparr>type = ascii ''greeting'', confidence = Float 0.98\<rparr>"
  by (simp add: classify_intent_def any_in_def req_u7_def ascii_def lower_latin1_def lower_cp_def)

lemma reply_u7: "process_message lower_latin1 req_u7 = reply_greeting"
  by (simp add: process_message_def any_in_def req_u7_def ascii_def lower_latin1_def lower_cp_def)

lemma no_handoff_u7:
  "\<not> should_transfer_to_human lower_latin1 (message req_u7)
       \<lparr>type = ascii ''greeting'', confidence = Float 0.98\<rparr>"
  by (simp add: should_transfer_to_human_def any_in_def human_keywords_def req_u7_def ascii_def
      lower_latin1_def lower_cp_def)

text \<open>
  Claim C7. The handler on user u7 with the message "oi", at a fixed time: the bucket
  that matches is the greeting, whose constant is 0.98, and that is the confidence of the
  classifier; the confidence of the response is 0.95. It is one of the seven constants,
  and it is not the constant of the bucket that matched.
\<close>

theorem chat_greeting_u7:
  "chat lower_latin1 stamp0 now0 req_u7 =
     Inr \<lparr>response = reply_greeting,
          intent = ascii ''greeting'',
          confidence = Float 0.95,
          requires_human = False,
          suggested_actions = default_suggestions,
          session_id = ascii ''session_u7_20240102_030405'',
          timestamp = now0\<rparr>
   \<and> classify_intent lower_latin1 (message req_u7)
       = \<lparr>type = ascii ''greeting'', confidence = Float 0.98\<rparr>
   \<and> topic_confidence (ascii ''greeting'') = Float 0.98
   \<and> Float 0.95 \<in> confidence_constants
   \<and> Float 0.95 \<noteq> Float 0.98"
proof (intro conjI)
  have "generate_suggestions \<lparr>type = ascii ''greeting'', confidence = Float 0.98\<rparr>
          (message req_u7) = default_suggestions"
    by (simp add: generate_suggestions_def dict_get_def suggestions_def ascii_def)
  moreover have "ascii ''session_'' @ user_id req_u7 @ ascii ''_'' @ stamp0
     = ascii ''session_u7_20240102_030405''"
    by (simp add: req_u7_def stamp0_def ascii_def)
  ultimately show "chat lower_latin1 stamp0 now0 req_u7 =
     Inr \<lparr>response = reply_greeting,
          intent = ascii ''greeting'',
          confidence = Float 0.95,
          requires_human = False,
          suggested_actions = default_suggestions,
          session_id = ascii ''session_u7_20240102_030405'',
          timestamp = now0\<rparr>"
    using no_handoff_u7 by (simp add: chat_returns classify_u7 reply_u7)
  show "classify_intent lower_latin1 (message req_u7)
       = \<lparr>type = ascii ''greeting'', confidence = Float 0.98\<rparr>"
    by (rule classify_u7)
  show "topic_confidence (ascii ''greeting'') = Float 0.98"
    by (simp add: topic_confidence_def dict_get_def intent_rules_def ascii_def)
  show "Float 0.95 \<in> confidence_constants"
    by (simp add: confidence_constants_def)
  show "Float 0.95 \<noteq> Float 0.98" by simp
qed

end
